theory Spec2Isabelle
  imports Complex_Main "HOL-Library.Char_ord" "HOL-Library.List_Lexorder"
    "HOL-Library.Product_Lexorder"
begin

section \<open>Tables, errors and the logger\<close>

text \<open>
  A table cell is a string, a number or null (\<open>None\<close>/\<open>NaN\<close>). The numbers are the
  values of a type \<open>'n\<close> that is left open: a number is what the table holds, a 64-bit
  integer or a 64-bit float, and nothing is assumed of its arithmetic. What the
  library computes with numbers (\<open>abs\<close>, \<open>mean\<close>, \<open>float\<close>) is a parameter of the
  model. A table keeps its columns in order, each a label with the list of its cells.
  Column labels are assumed distinct wherever a column is read or written by label.
\<close>

datatype 'n cell = Null | Str string | Num 'n

type_synonym 'n dataframe = "(string \<times> 'n cell list) list"

text \<open>
  The exceptions that the modelled code can raise. \<open>SourceUnavailable\<close> stands for any
  failure of an ingestion collaborator. \<open>ExtractionError\<close> is the error kind that the
  specification names; no path of the source constructs it.
\<close>

datatype error = IndexError | KeyError | AttributeError | TypeError | ValueError
  | StopIteration | MergeError | SourceUnavailable | ExtractionError

datatype level = DEBUG | INFO | WARNING

text \<open>The attribute \<open>logger\<close> is modelled by the list of calls made on it, oldest first.\<close>

type_synonym log_entry = "level \<times> string"

record processor =
  logger :: "log_entry list"

text \<open>\<open>df.columns\<close>, \<open>df[name]\<close>, \<open>df[name] = values\<close>, \<open>df.rename(columns=m)\<close>
  and \<open>df.drop(columns=name)\<close>.\<close>

definition columns :: "'n dataframe \<Rightarrow> string list" where
  "columns d = map fst d"

definition getitem :: "'n dataframe \<Rightarrow> string \<Rightarrow> error + 'n cell list" where
  "getitem d name = (case map_of d name of None \<Rightarrow> Inl KeyError | Some c \<Rightarrow> Inr c)"

definition setitem :: "'n dataframe \<Rightarrow> string \<Rightarrow> 'n cell list \<Rightarrow> 'n dataframe" where
  "setitem d name c =
     (if name \<in> set (columns d) then map (\<lambda>(n, old). (n, if n = name then c else old)) d
      else d @ [(name, c)])"

definition rename :: "(string \<rightharpoonup> string) \<Rightarrow> 'n dataframe \<Rightarrow> 'n dataframe" where
  "rename m d = map (\<lambda>(n, c). (case m n of None \<Rightarrow> n | Some n' \<Rightarrow> n', c)) d"

definition drop_columns :: "'n dataframe \<Rightarrow> string \<Rightarrow> error + 'n dataframe" where
  "drop_columns d name =
     (if name \<in> set (columns d) then Inr (filter (\<lambda>(n, c). n \<noteq> name) d) else Inl KeyError)"

fun is_Str :: "'n cell \<Rightarrow> bool" where
  "is_Str (Str s) = True"
| "is_Str c = False"

fun is_Num :: "'n cell \<Rightarrow> bool" where
  "is_Num (Num x) = True"
| "is_Num c = False"

text \<open>
  \<open>left.merge(right, on=key, how='left')\<close>: every row of \<open>left\<close>, in order, is paired
  with each row of \<open>right\<close> that has the same key cell, in the order of \<open>right\<close>, or
  with nulls when there is none. The columns of \<open>left\<close> come first, then those of
  \<open>right\<close> but the key; a label that both sides carry gets the suffix \<open>_x\<close> or \<open>_y\<close>.
  A key column of strings against a key column of numbers raises \<open>ValueError\<close>, and
  a suffix that makes two labels of one side equal raises \<open>MergeError\<close>. All columns of
  one table are taken to have the same length, and a key column to hold, nulls apart,
  cells of one kind.
\<close>

definition merge :: "'n dataframe \<Rightarrow> 'n dataframe \<Rightarrow> string \<Rightarrow> error + 'n dataframe" where
  "merge left right on =
     (case getitem left on of
        Inl e \<Rightarrow> Inl e
      | Inr lk \<Rightarrow>
          (case getitem right on of
             Inl e \<Rightarrow> Inl e
           | Inr rk \<Rightarrow>
               if (list_ex is_Str lk \<and> \<not> list_ex is_Num lk \<and> list_ex is_Num rk \<and> \<not> list_ex is_Str rk)
                 \<or> (list_ex is_Num lk \<and> \<not> list_ex is_Str lk \<and> list_ex is_Str rk \<and> \<not> list_ex is_Num rk)
               then Inl ValueError
               else
                 let pairs = concat (map (\<lambda>i.
                         let js = filter (\<lambda>j. rk ! j = lk ! i) [0..<length rk]
                         in if js = [] then [(i, None)] else map (\<lambda>j. (i, Some j)) js)
                       [0..<length lk]);
                     overlap = filter (\<lambda>n. n \<noteq> on \<and> n \<in> set (columns right)) (columns left);
                     llabels = map (\<lambda>n. if n \<in> set overlap then n @ ''_x'' else n) (columns left);
                     rlabels = map (\<lambda>n. if n \<in> set overlap then n @ ''_y'' else n) (columns right)
                 in if \<not> distinct llabels \<or> \<not> distinct rlabels then Inl MergeError
                    else Inr (map (\<lambda>(n, c). (if n \<in> set overlap then n @ ''_x'' else n,
                                map (\<lambda>(i, j). c ! i) pairs)) left
                       @ map (\<lambda>(n, c). (if n \<in> set overlap then n @ ''_y'' else n,
                                map (\<lambda>(i, j). case j of None \<Rightarrow> Null | Some j' \<Rightarrow> c ! j') pairs))
                           (filter (\<lambda>(n, c). n \<noteq> on) right))))"

section \<open>The ingestion collaborators\<close>

text \<open>
  The module \<open>data_ingestion\<close> is not part of the modelled sources. Its three functions
  are parameters: each returns a value or fails.
\<close>

record ('n, 'e) ingestion =
  create_db_engine :: "string \<Rightarrow> error + 'e"
  query_data :: "'e \<Rightarrow> string \<Rightarrow> error + 'n dataframe"
  read_from_web_CSV :: "string \<Rightarrow> error + 'n dataframe"

section \<open>FieldDataProcessor\<close>

text \<open>
  Every method takes the instance \<open>self\<close> and returns either the exception raised or
  the returned value with the instance as the method leaves it.
\<close>

text \<open>
  The keys of \<open>values_to_rename\<close> are strings, the names of categories, so that a cell
  that is not a string is never a key.
\<close>

record ('n, 'e) field_processor = processor +
  db_path :: string
  sql_query :: string
  columns_to_rename :: "(string \<times> string) list"
  values_to_rename :: "string \<rightharpoonup> 'n cell"
  weather_map_data :: string
  df :: "'n dataframe option"
  engine :: "'e option"

text \<open>The loop of \<open>rename_columns\<close> that appends \<open>_\<close> to the temporary name while a
  column carries it.\<close>

function fresh_temp_name :: "string list \<Rightarrow> string \<Rightarrow> string" where
  "fresh_temp_name cols temp_name =
     (if temp_name \<in> set cols then fresh_temp_name cols (temp_name @ ''_'') else temp_name)"
  by pat_completeness auto
termination
proof (relation "measure (\<lambda>(cols, t). Suc (sum_list (map length cols)) - length t)")
  show "wf (measure (\<lambda>(cols, t). Suc (sum_list (map length cols)) - length t))"
    by simp
next
  fix cols :: "string list" and temp_name :: string
  assume "temp_name \<in> set cols"
  then have "length temp_name \<le> sum_list (map length cols)"
    by (simp add: member_le_sum_list)
  then show "((cols, temp_name @ ''_''), (cols, temp_name))
      \<in> measure (\<lambda>(cols, t). Suc (sum_list (map length cols)) - length t)"
    by simp
qed

declare fresh_temp_name.simps [simp del]

definition rename_columns ::
  "('n, 'e) field_processor \<Rightarrow> error + ('n dataframe \<times> ('n, 'e) field_processor)" where
  "rename_columns self =
     (case columns_to_rename self of
        [] \<Rightarrow> Inl IndexError
      | (column1, column2) # _ \<Rightarrow>
          (case df self of
             None \<Rightarrow> Inl AttributeError
           | Some d \<Rightarrow>
               let temp_name = fresh_temp_name (columns d) ''__temp_name_for_swap__'';
                   d1 = rename [column1 \<mapsto> temp_name, column2 \<mapsto> column1] d;
                   d2 = rename [temp_name \<mapsto> column2] d1
               in Inr (d2, self\<lparr>df := Some d2,
                    logger := logger self @
                      [(INFO, ''Swapped columns: '' @ column1 @ '' with '' @ column2)]\<rparr>)))"

definition ingest_sql_data ::
  "('n, 'e) ingestion \<Rightarrow> ('n, 'e) field_processor
    \<Rightarrow> error + ('n dataframe \<times> ('n, 'e) field_processor)" where
  "ingest_sql_data io self =
     (case create_db_engine io (db_path self) of
        Inl e \<Rightarrow> Inl e
      | Inr eng \<Rightarrow>
          (case query_data io eng (sql_query self) of
             Inl e \<Rightarrow> Inl e
           | Inr d \<Rightarrow> Inr (d, self\<lparr>engine := Some eng, df := Some d,
                 logger := logger self @ [(INFO, ''Sucessfully loaded data.'')]\<rparr>)))"

text \<open>
  \<open>apply_corrections\<close>. \<open>Series.abs()\<close> is the parameter \<open>series_abs\<close>: it gives the
  column of absolute values as the library computes them for the type of the column
  (a 64-bit integer wraps at its least value), or the exception it raises, as on a
  string. The category of a cell is looked up with \<open>dict.get(crop, crop)\<close>.
\<close>

definition apply_corrections ::
  "('n cell list \<Rightarrow> error + 'n cell list) \<Rightarrow> ('n, 'e) field_processor \<Rightarrow> string \<Rightarrow> string
    \<Rightarrow> error + ('n dataframe \<times> ('n, 'e) field_processor)" where
  "apply_corrections series_abs self column_name abs_column =
     (case df self of
        None \<Rightarrow> Inl TypeError
      | Some d \<Rightarrow>
          (case getitem d abs_column of
             Inl e \<Rightarrow> Inl e
           | Inr elevation \<Rightarrow>
               (case series_abs elevation of
                  Inl e \<Rightarrow> Inl e
                | Inr a \<Rightarrow>
                    let d1 = setitem d abs_column a
                    in (case getitem d1 column_name of
                          Inl e \<Rightarrow> Inl e
                        | Inr crops \<Rightarrow>
                            let d2 = setitem d1 column_name
                                  (map (\<lambda>crop. case crop of
                                      Str s \<Rightarrow> (case values_to_rename self s of
                                                 None \<Rightarrow> crop | Some v \<Rightarrow> v)
                                    | _ \<Rightarrow> crop) crops)
                            in Inr (d2, self\<lparr>df := Some d2\<rparr>)))))"

definition weather_station_mapping ::
  "('n, 'e) ingestion \<Rightarrow> ('n, 'e) field_processor \<Rightarrow> error + 'n dataframe" where
  "weather_station_mapping io self = read_from_web_CSV io (weather_map_data self)"

text \<open>\<open>process\<close> up to and including the merge (its first five statements).\<close>

definition process_merge ::
  "('n, 'e) ingestion \<Rightarrow> ('n cell list \<Rightarrow> error + 'n cell list) \<Rightarrow> ('n, 'e) field_processor
    \<Rightarrow> error + ('n dataframe \<times> ('n, 'e) field_processor)" where
  "process_merge io series_abs self =
     (case ingest_sql_data io self of
        Inl e \<Rightarrow> Inl e
      | Inr (d0, self0) \<Rightarrow>
          (case rename_columns (self0\<lparr>df := Some d0\<rparr>) of
             Inl e \<Rightarrow> Inl e
           | Inr (d1, self1) \<Rightarrow>
               (case apply_corrections series_abs (self1\<lparr>df := Some d1\<rparr>)
                       ''Crop_type'' ''Elevation'' of
                  Inl e \<Rightarrow> Inl e
                | Inr (d2, self2) \<Rightarrow>
                    (case weather_station_mapping io (self2\<lparr>df := Some d2\<rparr>) of
                       Inl e \<Rightarrow> Inl e
                     | Inr weather_map_df \<Rightarrow>
                         (case merge d2 weather_map_df ''Field_ID'' of
                            Inl e \<Rightarrow> Inl e
                          | Inr m \<Rightarrow> Inr (m, self2\<lparr>df := Some m\<rparr>))))))"

text \<open>
  \<open>process\<close>: the last statement drops the column \<open>Unnamed: 0\<close>; the method ends
  without a \<open>return\<close> statement, so the value returned is \<open>None\<close>.
\<close>

definition FieldDataProcessor_process ::
  "('n, 'e) ingestion \<Rightarrow> ('n cell list \<Rightarrow> error + 'n cell list) \<Rightarrow> ('n, 'e) field_processor
    \<Rightarrow> error + ('n dataframe option \<times> ('n, 'e) field_processor)" where
  "FieldDataProcessor_process io series_abs self =
     (case process_merge io series_abs self of
        Inl e \<Rightarrow> Inl e
      | Inr (m, self1) \<Rightarrow>
          (case drop_columns m ''Unnamed: 0'' of
             Inl e \<Rightarrow> Inl e
           | Inr d \<Rightarrow> Inr (None, self1\<lparr>df := Some d\<rparr>)))"

section \<open>WeatherDataProcessor\<close>

text \<open>
  The regular-expression engine and the built-in \<open>float\<close> are parameters:
  \<open>re_search pattern message\<close> is \<open>None\<close> when the pattern matches nowhere and
  otherwise the groups of the first match, a group that took no part being \<open>None\<close>;
  \<open>py_float s\<close> is \<open>None\<close> when \<open>float(s)\<close> raises \<open>ValueError\<close> and otherwise the
  number it returns. Patterns are taken to be well-formed, so the search of a string
  never raises.
\<close>

record ('n, 'p) weather_processor = processor +
  weather_station_data :: string
  patterns :: "(string \<times> 'p) list"
  weather_df :: "'n dataframe option"

definition WeatherDataProcessor_weather_station_mapping ::
  "('n, 'e) ingestion \<Rightarrow> ('n, 'p) weather_processor
    \<Rightarrow> error + (unit \<times> ('n, 'p) weather_processor)" where
  "WeatherDataProcessor_weather_station_mapping io self =
     (case read_from_web_CSV io (weather_station_data self) of
        Inl e \<Rightarrow> Inl e
      | Inr d \<Rightarrow> Inr ((), self\<lparr>weather_df := Some d,
            logger := logger self @
              [(INFO, ''Successfully loaded weather station data from the web.'')]\<rparr>))"

text \<open>\<open>next((x for x in match.groups() if x is not None))\<close>, \<open>None\<close> standing for the
  \<open>StopIteration\<close> of an exhausted generator.\<close>

fun next_not_None :: "string option list \<Rightarrow> string option" where
  "next_not_None [] = None"
| "next_not_None (None # xs) = next_not_None xs"
| "next_not_None (Some x # xs) = Some x"

text \<open>\<open>extract_measurement\<close> returns the calls it makes on the logger together with
  its result. The first argument of the recursion is what is left of
  \<open>self.patterns.items()\<close>.\<close>

fun extract_measurement ::
  "('p \<Rightarrow> string \<Rightarrow> string option list option) \<Rightarrow> (string \<Rightarrow> 'n option)
    \<Rightarrow> (string \<times> 'p) list \<Rightarrow> string
    \<Rightarrow> log_entry list \<times> (error + (string option \<times> 'n option))" where
  "extract_measurement re_search py_float [] message =
     ([(DEBUG, ''No measurement match found.'')], Inr (None, None))"
| "extract_measurement re_search py_float ((key, pattern) # items) message =
     (case re_search pattern message of
        None \<Rightarrow> extract_measurement re_search py_float items message
      | Some groups \<Rightarrow>
          ([(DEBUG, ''Measurement extracted: '' @ key)],
           case next_not_None groups of
             None \<Rightarrow> Inl StopIteration
           | Some x \<Rightarrow>
               (case py_float x of
                  None \<Rightarrow> Inl ValueError
                | Some v \<Rightarrow> Inr (Some key, Some v))))"

text \<open>
  \<open>extract_measurement\<close> called on a cell of the column \<open>Message\<close>. On a cell that is
  not a string the first search raises \<open>TypeError\<close>, before anything is logged; when
  there is no pattern nothing is searched and the pair of absents is returned.
\<close>

fun extract_measurement_cell ::
  "('p \<Rightarrow> string \<Rightarrow> string option list option) \<Rightarrow> (string \<Rightarrow> 'n option)
    \<Rightarrow> (string \<times> 'p) list \<Rightarrow> 'n cell
    \<Rightarrow> log_entry list \<times> (error + (string option \<times> 'n option))" where
  "extract_measurement_cell re_search py_float items (Str message) =
     extract_measurement re_search py_float items message"
| "extract_measurement_cell re_search py_float [] c =
     ([(DEBUG, ''No measurement match found.'')], Inr (None, None))"
| "extract_measurement_cell re_search py_float (item # items) c = ([], Inl TypeError)"

text \<open>\<open>weather_df['Message'].apply(self.extract_measurement)\<close>: one extraction per
  row, in order, stopping at the first that raises.\<close>

fun apply_extract ::
  "('p \<Rightarrow> string \<Rightarrow> string option list option) \<Rightarrow> (string \<Rightarrow> 'n option)
    \<Rightarrow> (string \<times> 'p) list \<Rightarrow> 'n cell list
    \<Rightarrow> error + (log_entry list \<times> (string option \<times> 'n option) list)" where
  "apply_extract re_search py_float ps [] = Inr ([], [])"
| "apply_extract re_search py_float ps (c # cs) =
     (case extract_measurement_cell re_search py_float ps c of
        (l, Inl e) \<Rightarrow> Inl e
      | (l, Inr r) \<Rightarrow>
          (case apply_extract re_search py_float ps cs of
             Inl e \<Rightarrow> Inl e
           | Inr (ls, rs) \<Rightarrow> Inr (l @ ls, r # rs)))"

fun measurement_cell :: "string option \<Rightarrow> 'n cell" where
  "measurement_cell None = Null"
| "measurement_cell (Some key) = Str key"

fun value_cell :: "'n option \<Rightarrow> 'n cell" where
  "value_cell None = Null"
| "value_cell (Some v) = Num v"

text \<open>\<open>process_messages\<close>. Unpacking \<open>zip(*result)\<close> into two targets raises
  \<open>ValueError\<close> when the table has no row.\<close>

definition process_messages ::
  "('p \<Rightarrow> string \<Rightarrow> string option list option) \<Rightarrow> (string \<Rightarrow> 'n option)
    \<Rightarrow> ('n, 'p) weather_processor
    \<Rightarrow> error + ('n dataframe option \<times> ('n, 'p) weather_processor)" where
  "process_messages re_search py_float self =
     (case weather_df self of
        None \<Rightarrow> Inr (None, self\<lparr>logger := logger self @
            [(WARNING, ''weather_df is not initialized, skipping message processing.'')]\<rparr>)
      | Some d \<Rightarrow>
          (case getitem d ''Message'' of
             Inl e \<Rightarrow> Inl e
           | Inr messages \<Rightarrow>
               (case apply_extract re_search py_float (patterns self) messages of
                  Inl e \<Rightarrow> Inl e
                | Inr (ls, result) \<Rightarrow>
                    if result = [] then Inl ValueError
                    else
                      let d1 = setitem d ''Measurement'' (map (measurement_cell \<circ> fst) result);
                          d2 = setitem d1 ''Value'' (map (value_cell \<circ> snd) result)
                      in Inr (Some d2, self\<lparr>weather_df := Some d2,
                           logger := logger self @ ls @
                             [(INFO, ''Messages processed and measurements extracted.'')]\<rparr>))))"

text \<open>
  \<open>groupby(by=[k1, k2])[v]\<close>: rows with a null key are left out, the groups are sorted
  by key, and each group holds its cells of column \<open>v\<close> in row order. Numbers are
  sorted by their own order and strings come after numbers.
\<close>

fun cell_key :: "'n cell \<Rightarrow> nat \<times> 'n list \<times> string" where
  "cell_key Null = (0, [], [])"
| "cell_key (Num x) = (1, [x], [])"
| "cell_key (Str s) = (2, [], s)"

definition group_key ::
  "'n cell \<times> 'n cell \<Rightarrow> (nat \<times> 'n list \<times> string) \<times> (nat \<times> 'n list \<times> string)" where
  "group_key k = (cell_key (fst k), cell_key (snd k))"

definition groupby :: "('n :: linorder) dataframe \<Rightarrow> string \<Rightarrow> string \<Rightarrow> string
    \<Rightarrow> error + (('n cell \<times> 'n cell) \<times> 'n cell list) list" where
  "groupby d k1 k2 v =
     (case getitem d k1 of
        Inl e \<Rightarrow> Inl e
      | Inr c1 \<Rightarrow>
          (case getitem d k2 of
             Inl e \<Rightarrow> Inl e
           | Inr c2 \<Rightarrow>
               (case getitem d v of
                  Inl e \<Rightarrow> Inl e
                | Inr cv \<Rightarrow>
                    let rows = filter (\<lambda>(k, x). fst k \<noteq> Null \<and> snd k \<noteq> Null) (zip (zip c1 c2) cv);
                        keys = sort_key group_key (remdups (map fst rows))
                    in Inr (map (\<lambda>k. (k, map snd (filter (\<lambda>(k', x). k' = k) rows))) keys))))"

text \<open>
  \<open>.mean()\<close> of the groups, one after the other. The mean of one group is the
  parameter \<open>series_mean\<close>: from the cells of the group in row order it gives the cell
  that the library computes in 64-bit floats, nulls skipped, or the exception it
  raises. It is taken to depend on the cells of the group only.
\<close>

fun mean_groups :: "('n cell list \<Rightarrow> error + 'n cell)
    \<Rightarrow> (('n cell \<times> 'n cell) \<times> 'n cell list) list \<Rightarrow> error + (('n cell \<times> 'n cell) \<times> 'n cell) list" where
  "mean_groups series_mean [] = Inr []"
| "mean_groups series_mean ((k, cs) # gs) =
     (case series_mean cs of
        Inl e \<Rightarrow> Inl e
      | Inr m \<Rightarrow>
          (case mean_groups series_mean gs of
             Inl e \<Rightarrow> Inl e
           | Inr ms \<Rightarrow> Inr ((k, m) # ms)))"

text \<open>
  \<open>.unstack()\<close>: one row per first key and one column per second key, both sorted; the
  cell of a pair of keys with no entry is null.
\<close>

record 'n wide_table =
  index :: "'n cell list"
  value_columns :: "('n cell \<times> 'n cell list) list"

definition unstack :: "((('n :: linorder) cell \<times> 'n cell) \<times> 'n cell) list \<Rightarrow> 'n wide_table" where
  "unstack means =
     (let idx = sort_key cell_key (remdups (map (fst \<circ> fst) means));
          labels = sort_key cell_key (remdups (map (snd \<circ> fst) means))
      in \<lparr>index = idx,
          value_columns = map (\<lambda>m. (m, map (\<lambda>s. case map_of means (s, m) of
                                       None \<Rightarrow> Null | Some x \<Rightarrow> x) idx)) labels\<rparr>)"


definition calculate_means ::
  "(('n :: linorder) cell list \<Rightarrow> error + 'n cell) \<Rightarrow> ('n, 'p) weather_processor
    \<Rightarrow> error + ('n wide_table option \<times> ('n, 'p) weather_processor)" where
  "calculate_means series_mean self =
     (case weather_df self of
        None \<Rightarrow> Inr (None, self\<lparr>logger := logger self @
            [(WARNING, ''weather_df is not initialized, cannot calculate means.'')]\<rparr>)
      | Some d \<Rightarrow>
          (case groupby d ''Weather_station_ID'' ''Measurement'' ''Value'' of
             Inl e \<Rightarrow> Inl e
           | Inr groups \<Rightarrow>
               (case mean_groups series_mean groups of
                  Inl e \<Rightarrow> Inl e
                | Inr means \<Rightarrow> Inr (Some (unstack means),
                    self\<lparr>logger := logger self @ [(INFO, ''Mean values calculated.'')]\<rparr>))))"

definition WeatherDataProcessor_process ::
  "('n, 'e) ingestion \<Rightarrow> ('p \<Rightarrow> string \<Rightarrow> string option list option) \<Rightarrow> (string \<Rightarrow> 'n option)
    \<Rightarrow> ('n, 'p) weather_processor \<Rightarrow> error + (unit \<times> ('n, 'p) weather_processor)" where
  "WeatherDataProcessor_process io re_search py_float self =
     (case WeatherDataProcessor_weather_station_mapping io self of
        Inl e \<Rightarrow> Inl e
      | Inr (u, self1) \<Rightarrow>
          (case process_messages re_search py_float self1 of
             Inl e \<Rightarrow> Inl e
           | Inr (d, self2) \<Rightarrow>
               Inr ((), self2\<lparr>logger := logger self2 @ [(INFO, ''Data processing completed.'')]\<rparr>)))"

section \<open>Example inputs\<close>

text \<open>
  Instances of the library parameters for the examples: an absolute value that works
  cell by cell and raises \<open>TypeError\<close> on a string, with the absolute value of a 64-bit
  integer and that of a float on numbers, and the arithmetic mean of the numbers of a
  group, which is what the library computes where the float arithmetic is exact, as it
  is on the numbers of the examples.
\<close>

definition elementwise_abs :: "('n \<Rightarrow> 'n) \<Rightarrow> 'n cell list \<Rightarrow> error + 'n cell list" where
  "elementwise_abs f cs =
     (if list_ex is_Str cs then Inl TypeError
      else Inr (map (\<lambda>c. case c of Num x \<Rightarrow> Num (f x) | _ \<Rightarrow> c) cs))"

definition int64_abs :: "int \<Rightarrow> int" where
  "int64_abs x = (if x = - (2 ^ 63) then x else \<bar>x\<bar>)"

definition example_abs :: "real cell list \<Rightarrow> error + real cell list" where
  "example_abs = elementwise_abs abs"

fun nums :: "'n cell list \<Rightarrow> 'n list" where
  "nums [] = []"
| "nums (Num x # cs) = x # nums cs"
| "nums (c # cs) = nums cs"

definition example_mean :: "real cell list \<Rightarrow> error + real cell" where
  "example_mean cs =
     (if list_ex is_Str cs then Inl TypeError
      else if nums cs = [] then Inr Null
      else Inr (Num (sum_list (nums cs) / real (length (nums cs)))))"

definition example_field :: "(real, unit) field_processor" where
  "example_field =
     \<lparr>logger = [], db_path = ''sqlite:///Maji_Ndogo_farm_survey_small.db'',
      sql_query = ''SELECT * FROM geographic_features'',
      columns_to_rename = [(''Annual_yield'', ''Crop_type''), (''Crop_type'', ''Annual_yield'')],
      values_to_rename = [''BEAN'' \<mapsto> Str ''Bean''],
      weather_map_data = ''Weather_data_field_mapping.csv'',
      df = Some [(''Field_ID'', [Num 1]), (''Annual_yield'', [Str ''BEAN'']),
                 (''Crop_type'', [Num 0.5]), (''Elevation'', [Num (- 5)])],
      engine = None\<rparr>"

text \<open>
  What the regular-expression engine and \<open>float\<close> answer on the patterns, messages and
  captured texts of the examples. The digit class is written \<open>[0-9]\<close>; the pattern
  \<open>Temp\<close> has no group.
\<close>

definition example_re_search :: "string \<Rightarrow> string \<Rightarrow> string option list option" where
  "example_re_search pattern message =
     map_of [((''Temp: ([0-9]+[.]?[0-9]*)C'', ''Temp: 23.5C''), [Some ''23.5'']),
             ((''Temp: ([0-9]+[.]?[0-9]*)C'', ''Temp: 20C''), [Some ''20'']),
             ((''Temp: ([0-9]+[.]?[0-9]*)C'', ''Temp: 30C''), [Some ''30'']),
             ((''Temp'', ''Temp: 23.5C''), []),
             ((''Temp: (.*)C'', ''Temp: highC''), [Some ''high''])] (pattern, message)"

definition example_float :: "string \<Rightarrow> real option" where
  "example_float x = map_of [(''23.5'', 23.5), (''20'', 20), (''30'', 30)] x"

definition example_weather :: "(real, string) weather_processor" where
  "example_weather =
     \<lparr>logger = [], weather_station_data = ''Weather_station_data.csv'',
      patterns = [(''temperature'', ''Temp: ([0-9]+[.]?[0-9]*)C'')],
      weather_df = None\<rparr>"

definition example_sql_table :: "real dataframe" where
  "example_sql_table =
     [(''Field_ID'', [Num 1, Num 2]), (''Elevation'', [Num (- 5), Num 12]),
      (''Annual_yield'', [Str ''BEAN'', Str ''maize'']), (''Crop_type'', [Num 0.5, Num 0.75])]"

definition example_mapping_table :: "real dataframe" where
  "example_mapping_table =
     [(''Unnamed: 0'', [Num 0, Num 1]), (''Field_ID'', [Num 1, Num 7]),
      (''Weather_station'', [Num 4, Num 3])]"

definition example_weather_table :: "real dataframe" where
  "example_weather_table =
     [(''Weather_station_ID'', [Num 1, Num 1, Num 2]),
      (''Message'', [Str ''Temp: 20C'', Str ''Temp: 30C'', Str ''no data''])]"

definition example_io :: "(real, unit) ingestion" where
  "example_io =
     \<lparr>create_db_engine = (\<lambda>path. Inr ()),
      query_data = (\<lambda>eng query. Inr example_sql_table),
      read_from_web_CSV = (\<lambda>url.
        if url = ''Weather_data_field_mapping.csv'' then Inr example_mapping_table
        else if url = ''Weather_station_data.csv'' then Inr example_weather_table
        else Inl SourceUnavailable)\<rparr>"

text \<open>The same collaborators, but the mapping table comes without the column
  \<open>Unnamed: 0\<close>.\<close>

definition example_io_no_index :: "(real, unit) ingestion" where
  "example_io_no_index =
     example_io\<lparr>read_from_web_CSV := (\<lambda>url.
        Inr [(''Field_ID'', [Num 1, Num 7]), (''Weather_station'', [Num 4, Num 3])])\<rparr>"


text \<open>A field table of integers, and the same with a string for an elevation.\<close>

definition example_corrections :: "(int, unit) field_processor" where
  "example_corrections =
     \<lparr>logger = [], db_path = ''sqlite:///Maji_Ndogo_farm_survey_small.db'',
      sql_query = ''SELECT * FROM geographic_features'',
      columns_to_rename = [(''Annual_yield'', ''Crop_type''), (''Crop_type'', ''Annual_yield'')],
      values_to_rename = [''BEAN'' \<mapsto> Str ''Bean''],
      weather_map_data = ''Weather_data_field_mapping.csv'',
      df = Some [(''Field_ID'', [Num 1]), (''Crop_type'', [Str ''BEAN'']),
                 (''Elevation'', [Num (- 5)])],
      engine = None\<rparr>"

definition example_corrections_string :: "(int, unit) field_processor" where
  "example_corrections_string =
     example_corrections\<lparr>df := Some [(''Field_ID'', [Num 1]), (''Crop_type'', [Str ''BEAN'']),
                 (''Elevation'', [Str ''high''])]\<rparr>"

text \<open>A rename mapping whose second entry names two columns that the first does not.\<close>

definition example_field_two_entries :: "(real, unit) field_processor" where
  "example_field_two_entries =
     example_field\<lparr>columns_to_rename :=
       [(''Annual_yield'', ''Crop_type''), (''Elevation'', ''Field_ID'')]\<rparr>"

section \<open>Properties of the column swap\<close>

lemma fresh_temp_name_fresh: "fresh_temp_name cols t \<notin> set cols"
proof (induction cols t rule: fresh_temp_name.induct)
  case (1 cols temp_name)
  then show ?case
    by (cases "temp_name \<in> set cols") (simp_all add: fresh_temp_name.simps [of cols temp_name])
qed

lemma rename_swap:
  assumes "t \<notin> set (columns d)" "A \<in> set (columns d)" "B \<in> set (columns d)"
  shows "rename [t \<mapsto> B] (rename [A \<mapsto> t, B \<mapsto> A] d)
    = map (\<lambda>(n, c). (if n = A then B else if n = B then A else n, c)) d"
proof -
  have "t \<noteq> A" "t \<noteq> B"
    using assms by auto
  moreover have "\<forall>x \<in> set d. fst x \<noteq> t"
    using assms(1) by (auto simp: columns_def)
  ultimately show ?thesis
    by (auto simp: rename_def)
qed

lemma columns_swap:
  "columns (map (\<lambda>(n, c). (if n = A then B else if n = B then A else n, c)) d)
     = map (\<lambda>n. if n = A then B else if n = B then A else n) (columns d)"
  by (simp add: columns_def case_prod_unfold comp_def)

lemma swap_swap:
  "map (\<lambda>(n, c). (if n = A then B else if n = B then A else n, c))
     (map (\<lambda>(n, c). (if n = A then B else if n = B then A else n, c)) d) = d"
  by (induction d) auto

lemma rename_columns_swap:
  assumes "columns_to_rename self = (A, B) # rest" "df self = Some R"
    and "A \<in> set (columns R)" "B \<in> set (columns R)"
  shows "rename_columns self =
     Inr (map (\<lambda>(n, c). (if n = A then B else if n = B then A else n, c)) R,
          self\<lparr>df := Some (map (\<lambda>(n, c). (if n = A then B else if n = B then A else n, c)) R),
            logger := logger self @ [(INFO, ''Swapped columns: '' @ A @ '' with '' @ B)]\<rparr>)"
proof -
  let ?t = "fresh_temp_name (columns R) ''__temp_name_for_swap__''"
  have "?t \<notin> set (columns R)"
    by (rule fresh_temp_name_fresh)
  from rename_swap [OF this assms(3,4)] assms(1,2) show ?thesis
    by (simp add: rename_columns_def Let_def)
qed

text \<open>
  C1. Whenever the table \<open>R\<close> has both configured columns \<open>A\<close> and \<open>B\<close> (first key and
  first value of \<open>columns_to_rename\<close>), \<open>rename_columns\<close> succeeds and relabels the
  columns so that \<open>A\<close> and \<open>B\<close> are exchanged: the cells that were under \<open>A\<close> are under
  \<open>B\<close> and conversely, every other label and every cell is as before, and a second
  call gives back \<open>R\<close>, labels and cells.
\<close>

theorem rename_columns_exchanges:
  assumes "columns_to_rename self = (A, B) # rest" "df self = Some R"
    and "A \<in> set (columns R)" "B \<in> set (columns R)"
  shows "\<exists>S self1 self2.
      rename_columns self = Inr (S, self1) \<and> df self1 = Some S
    \<and> S = map (\<lambda>(n, c). (if n = A then B else if n = B then A else n, c)) R
    \<and> map snd S = map snd R
    \<and> rename_columns self1 = Inr (R, self2) \<and> df self2 = Some R"
proof -
  let ?sw = "\<lambda>(n :: string, c :: 'a cell list). (if n = A then B else if n = B then A else n, c)"
  let ?l = "(INFO, ''Swapped columns: '' @ A @ '' with '' @ B)"
  let ?self1 = "self\<lparr>df := Some (map ?sw R), logger := logger self @ [?l]\<rparr>"
  have first: "rename_columns self = Inr (map ?sw R, ?self1)"
    using assms by (rule rename_columns_swap)
  have cols: "A \<in> set (columns (map ?sw R))" "B \<in> set (columns (map ?sw R))"
    using assms(3,4) by (auto simp: columns_swap)
  have "rename_columns ?self1 = Inr (map ?sw (map ?sw R),
      ?self1\<lparr>df := Some (map ?sw (map ?sw R)), logger := logger ?self1 @ [?l]\<rparr>)"
    by (rule rename_columns_swap [where rest = rest]) (use assms(1) cols in simp_all)
  then have second: "rename_columns ?self1 = Inr (R,
      ?self1\<lparr>df := Some R, logger := logger ?self1 @ [?l]\<rparr>)"
    by (simp only: swap_swap)
  have cells: "map snd (map ?sw R) = map snd R"
    by (induction R) auto
  show ?thesis
    using first second cells by (intro exI conjI) (assumption | simp)+
qed

theorem rename_columns_exchanges_witness:
  "columns_to_rename example_field
     = (''Annual_yield'', ''Crop_type'') # [(''Crop_type'', ''Annual_yield'')]
   \<and> df example_field = Some [(''Field_ID'', [Num 1]), (''Annual_yield'', [Str ''BEAN'']),
                 (''Crop_type'', [Num 0.5]), (''Elevation'', [Num (- 5)])]
   \<and> ''Annual_yield'' \<in> set (columns [(''Field_ID'', [Num 1]), (''Annual_yield'', [Str ''BEAN'']),
                 (''Crop_type'', [Num 0.5]), (''Elevation'', [Num (- 5)])])
   \<and> ''Crop_type'' \<in> set (columns [(''Field_ID'', [Num 1]), (''Annual_yield'', [Str ''BEAN'']),
                 (''Crop_type'', [Num 0.5]), (''Elevation'', [Num (- 5)])])
   \<and> (\<exists>self1 self2.
      rename_columns example_field = Inr ([(''Field_ID'', [Num 1]), (''Crop_type'', [Str ''BEAN'']),
                 (''Annual_yield'', [Num 0.5]), (''Elevation'', [Num (- 5)])], self1)
    \<and> rename_columns self1 = Inr ([(''Field_ID'', [Num 1]), (''Annual_yield'', [Str ''BEAN'']),
                 (''Crop_type'', [Num 0.5]), (''Elevation'', [Num (- 5)])], self2))"
  using rename_columns_exchanges [of example_field "''Annual_yield''" "''Crop_type''"
      "[(''Crop_type'', ''Annual_yield'')]"
      "[(''Field_ID'', [Num 1]), (''Annual_yield'', [Str ''BEAN'']),
                 (''Crop_type'', [Num 0.5]), (''Elevation'', [Num (- 5)])]"]
  by (auto simp: example_field_def columns_def)

section \<open>Properties of the measurement extraction\<close>

lemma extract_measurement_skip:
  "list_all (\<lambda>(k, p). re_search p M = None) P1 \<Longrightarrow>
     extract_measurement re_search py_float (P1 @ P2) M = extract_measurement re_search py_float P2 M"
  by (induction P1) auto

lemma extract_measurement_no_match:
  "(snd (extract_measurement re_search py_float P M) = Inr (None, None))
     = list_all (\<lambda>(k, p). re_search p M = None) P"
  by (induction P) (auto split: option.splits)

text \<open>
  C2, as amended. \<open>extract_measurement\<close> returns the pair of absents exactly when no
  pattern matches the message. When the first pattern that matches, in declaration
  order, is \<open>(k, p)\<close>, the call does what it would do with that pattern alone: the
  patterns after it are never consulted. If moreover the match has a group that is not
  null and the first such group parses as a float, the result is \<open>k\<close> with that float.
\<close>

theorem extract_measurement_first_match:
  "(snd (extract_measurement re_search py_float P M) = Inr (None, None)
      \<longleftrightarrow> (\<forall>(k, p) \<in> set P. re_search p M = None))
   \<and> (\<forall>P1 k p P2 gs.
        P = P1 @ (k, p) # P2 \<and> (\<forall>(k', p') \<in> set P1. re_search p' M = None)
          \<and> re_search p M = Some gs
        \<longrightarrow> extract_measurement re_search py_float P M
              = extract_measurement re_search py_float [(k, p)] M
          \<and> (\<forall>x v. next_not_None gs = Some x \<and> py_float x = Some v
                \<longrightarrow> snd (extract_measurement re_search py_float P M) = Inr (Some k, Some v)))"
proof (intro conjI allI impI)
  show "snd (extract_measurement re_search py_float P M) = Inr (None, None)
      \<longleftrightarrow> (\<forall>(k, p) \<in> set P. re_search p M = None)"
    by (simp add: extract_measurement_no_match list_all_iff)
next
  fix P1 k p P2 gs
  assume h: "P = P1 @ (k, p) # P2 \<and> (\<forall>(k', p') \<in> set P1. re_search p' M = None)
          \<and> re_search p M = Some gs"
  then have skip: "extract_measurement re_search py_float P M
      = extract_measurement re_search py_float ((k, p) # P2) M"
    by (simp add: extract_measurement_skip list_all_iff)
  with h show first: "extract_measurement re_search py_float P M
      = extract_measurement re_search py_float [(k, p)] M"
    by simp
  fix x v
  assume "next_not_None gs = Some x \<and> py_float x = Some v"
  with h skip show "snd (extract_measurement re_search py_float P M) = Inr (Some k, Some v)"
    by simp
qed

theorem extract_measurement_first_match_witness:
  "snd (extract_measurement example_re_search example_float
         [(''rainfall'', ''Rain: ([0-9]+)mm''), (''temperature'', ''Temp: ([0-9]+[.]?[0-9]*)C''),
          (''anything'', ''Temp: (.*)C'')] ''Temp: 23.5C'') = Inr (Some ''temperature'', Some 23.5)
   \<and> snd (extract_measurement example_re_search example_float
         [(''temperature'', ''Temp: ([0-9]+[.]?[0-9]*)C'')] ''no data'') = Inr (None, None)"
  using extract_measurement_first_match [of example_re_search example_float
      "[(''rainfall'', ''Rain: ([0-9]+)mm''), (''temperature'', ''Temp: ([0-9]+[.]?[0-9]*)C''),
          (''anything'', ''Temp: (.*)C'')]" "''Temp: 23.5C''"]
    extract_measurement_first_match [of example_re_search example_float
      "[(''temperature'', ''Temp: ([0-9]+[.]?[0-9]*)C'')]" "''no data''"]
  by (simp add: example_re_search_def example_float_def)

text \<open>
  The claim C2 as written promises a name and a value whenever some pattern matches.
  A pattern without a group that matches makes the call raise instead.
\<close>

theorem extract_measurement_no_group_counterexample:
  "example_re_search ''Temp'' ''Temp: 23.5C'' = Some []
   \<and> snd (extract_measurement example_re_search example_float [(''temperature'', ''Temp'')]
        ''Temp: 23.5C'') = Inl StopIteration"
  by (simp add: example_re_search_def)

text \<open>
  C7, as amended. When the first matching pattern yields no group that is not null,
  \<open>extract_measurement\<close> raises the built-in \<open>StopIteration\<close>; when the first such group
  does not parse as a float, it raises the built-in \<open>ValueError\<close>. In neither case does it
  return, and what it raises is never an \<open>ExtractionError\<close>.
\<close>

theorem extract_measurement_raises:
  assumes "P = P1 @ (k, p) # P2" "\<forall>(k', p') \<in> set P1. re_search p' M = None"
    and "re_search p M = Some gs"
  shows "(next_not_None gs = None
            \<longrightarrow> snd (extract_measurement re_search py_float P M) = Inl StopIteration)
       \<and> (\<forall>x. next_not_None gs = Some x \<and> py_float x = None
            \<longrightarrow> snd (extract_measurement re_search py_float P M) = Inl ValueError)
       \<and> snd (extract_measurement re_search py_float P M) \<noteq> Inl ExtractionError"
proof -
  have "extract_measurement re_search py_float P M
      = extract_measurement re_search py_float ((k, p) # P2) M"
    using assms(1,2) by (simp add: extract_measurement_skip list_all_iff)
  with assms(3) show ?thesis
    by (auto split: option.splits)
qed

theorem extract_measurement_raises_witness:
  "snd (extract_measurement example_re_search example_float
         [(''rainfall'', ''Rain: ([0-9]+)mm''), (''temperature'', ''Temp'')] ''Temp: 23.5C'')
     = Inl StopIteration
   \<and> snd (extract_measurement example_re_search example_float
         [(''temperature'', ''Temp: (.*)C'')] ''Temp: highC'') = Inl ValueError"
  using extract_measurement_raises [of _ "[(''rainfall'', ''Rain: ([0-9]+)mm'')]"
      "''temperature''" "''Temp''" "[]" example_re_search "''Temp: 23.5C''" "[]" example_float]
    extract_measurement_raises [of _ "[]" "''temperature''" "''Temp: (.*)C''" "[]"
      example_re_search "''Temp: highC''" "[Some ''high'']" example_float]
  by (simp add: example_re_search_def example_float_def)

text \<open>
  The claim C7 as written names the error \<open>ExtractionError\<close>. On a captured text that is
  not a number the error raised is \<open>ValueError\<close>.
\<close>

theorem extract_measurement_not_ExtractionError_counterexample:
  "example_re_search ''Temp: (.*)C'' ''Temp: highC'' = Some [Some ''high'']
   \<and> example_float ''high'' = None
   \<and> snd (extract_measurement example_re_search example_float
         [(''temperature'', ''Temp: (.*)C'')] ''Temp: highC'') = Inl ValueError
   \<and> snd (extract_measurement example_re_search example_float
         [(''temperature'', ''Temp: (.*)C'')] ''Temp: highC'') \<noteq> Inl ExtractionError"
  by (simp add: example_re_search_def example_float_def)

section \<open>The state before loading\<close>

text \<open>
  C8. While \<open>weather_df\<close> is absent, \<open>process_messages\<close> and \<open>calculate_means\<close> both
  return \<open>None\<close> without raising, and each makes exactly one call on the logger, a
  warning.
\<close>

theorem not_loaded_warns:
  assumes "weather_df self = None"
  shows "process_messages re_search py_float self = Inr (None, self\<lparr>logger := logger self @
            [(WARNING, ''weather_df is not initialized, skipping message processing.'')]\<rparr>)
       \<and> calculate_means series_mean self = Inr (None, self\<lparr>logger := logger self @
            [(WARNING, ''weather_df is not initialized, cannot calculate means.'')]\<rparr>)"
  using assms by (simp add: process_messages_def calculate_means_def)

theorem not_loaded_warns_witness:
  "weather_df example_weather = None
   \<and> process_messages example_re_search example_float example_weather
       = Inr (None, example_weather\<lparr>logger :=
            [(WARNING, ''weather_df is not initialized, skipping message processing.'')]\<rparr>)
   \<and> calculate_means example_mean example_weather = Inr (None, example_weather\<lparr>logger :=
            [(WARNING, ''weather_df is not initialized, cannot calculate means.'')]\<rparr>)"
  using not_loaded_warns [of example_weather example_re_search example_float example_mean]
  by (simp add: example_weather_def)

section \<open>Entries of the rename mapping after the first\<close>

lemma rename_keeps_other_labels:
  assumes "t \<notin> set (columns d)" "i < length d" "fst (d ! i) \<noteq> A" "fst (d ! i) \<noteq> B"
  shows "fst (rename [t \<mapsto> B] (rename [A \<mapsto> t, B \<mapsto> A] d) ! i) = fst (d ! i)"
proof -
  have "fst (d ! i) \<in> set (columns d)"
    using assms(2) by (simp add: columns_def)
  with assms(1) have "fst (d ! i) \<noteq> t"
    by auto
  with assms(2,3,4) show ?thesis
    by (simp add: rename_def case_prod_unfold)
qed

lemma rename_cells: "map snd (rename m d) = map snd d"
  by (induction d) (auto simp: rename_def)

text \<open>
  C10, as amended. When \<open>columns_to_rename\<close> has more than one entry, \<open>rename_columns\<close>
  returns the table it would return if the mapping had its first entry \<open>(A, B)\<close> only.
  On a table that has the columns \<open>A\<close> and \<open>B\<close> the result is the table with these
  two labels exchanged. Every column whose label is neither \<open>A\<close> nor \<open>B\<close>, be it named
  by a later entry or not, keeps its label, and every column keeps its cells.
\<close>

theorem rename_columns_first_entry_only:
  assumes "columns_to_rename self = (A, B) # rest" "rest \<noteq> []" "df self = Some R"
  shows "\<exists>S self1 self2.
      rename_columns self = Inr (S, self1)
    \<and> rename_columns (self\<lparr>columns_to_rename := [(A, B)]\<rparr>) = Inr (S, self2)
    \<and> length S = length R \<and> map snd S = map snd R
    \<and> (\<forall>i < length R. fst (R ! i) \<noteq> A \<and> fst (R ! i) \<noteq> B \<longrightarrow> fst (S ! i) = fst (R ! i))
    \<and> (A \<in> set (columns R) \<and> B \<in> set (columns R) \<longrightarrow>
          S = map (\<lambda>(n, c). (if n = A then B else if n = B then A else n, c)) R)"
proof -
  let ?t = "fresh_temp_name (columns R) ''__temp_name_for_swap__''"
  let ?S = "rename [?t \<mapsto> B] (rename [A \<mapsto> ?t, B \<mapsto> A] R)"
  have fresh: "?t \<notin> set (columns R)"
    by (rule fresh_temp_name_fresh)
  have 1: "rename_columns self = Inr (?S, self\<lparr>df := Some ?S,
      logger := logger self @ [(INFO, ''Swapped columns: '' @ A @ '' with '' @ B)]\<rparr>)"
    using assms(1,3) by (simp add: rename_columns_def Let_def)
  have 2: "rename_columns (self\<lparr>columns_to_rename := [(A, B)]\<rparr>)
      = Inr (?S, self\<lparr>columns_to_rename := [(A, B)], df := Some ?S,
      logger := logger self @ [(INFO, ''Swapped columns: '' @ A @ '' with '' @ B)]\<rparr>)"
    using assms(3) by (simp add: rename_columns_def Let_def)
  have 3: "length ?S = length R"
    by (simp add: rename_def)
  have 4: "map snd ?S = map snd R"
    by (simp add: rename_cells)
  have 5: "\<forall>i < length R. fst (R ! i) \<noteq> A \<and> fst (R ! i) \<noteq> B \<longrightarrow> fst (?S ! i) = fst (R ! i)"
    using fresh by (simp add: rename_keeps_other_labels)
  have 6: "A \<in> set (columns R) \<and> B \<in> set (columns R) \<longrightarrow>
      ?S = map (\<lambda>(n, c). (if n = A then B else if n = B then A else n, c)) R"
    using fresh by (simp add: rename_swap)
  from 1 2 3 4 5 6 show ?thesis
    by blast
qed

theorem rename_columns_first_entry_only_witness:
  "columns_to_rename example_field_two_entries
     = (''Annual_yield'', ''Crop_type'') # [(''Elevation'', ''Field_ID'')]
   \<and> [(''Elevation'', ''Field_ID'')] \<noteq> []
   \<and> df example_field_two_entries
       = Some [(''Field_ID'', [Num 1]), (''Annual_yield'', [Str ''BEAN'']),
                 (''Crop_type'', [Num 0.5]), (''Elevation'', [Num (- 5)])]
   \<and> (\<exists>self1 self2.
      rename_columns example_field_two_entries
        = Inr ([(''Field_ID'', [Num 1]), (''Crop_type'', [Str ''BEAN'']),
                 (''Annual_yield'', [Num 0.5]), (''Elevation'', [Num (- 5)])], self1)
    \<and> rename_columns (example_field_two_entries\<lparr>columns_to_rename :=
          [(''Annual_yield'', ''Crop_type'')]\<rparr>)
        = Inr ([(''Field_ID'', [Num 1]), (''Crop_type'', [Str ''BEAN'']),
                 (''Annual_yield'', [Num 0.5]), (''Elevation'', [Num (- 5)])], self2))"
proof -
  let ?R = "[(''Field_ID'', [Num 1]), (''Annual_yield'', [Str ''BEAN'']),
                 (''Crop_type'', [Num 0.5]), (''Elevation'', [Num (- 5 :: real)])]"
  have h: "columns_to_rename example_field_two_entries
     = (''Annual_yield'', ''Crop_type'') # [(''Elevation'', ''Field_ID'')]"
    "[(''Elevation'', ''Field_ID'')] \<noteq> []"
    "df example_field_two_entries = Some ?R"
    by (simp_all add: example_field_two_entries_def example_field_def)
  from rename_columns_first_entry_only [OF h] obtain S self1 self2 where
    1: "rename_columns example_field_two_entries = Inr (S, self1)"
    and 2: "rename_columns (example_field_two_entries\<lparr>columns_to_rename :=
          [(''Annual_yield'', ''Crop_type'')]\<rparr>) = Inr (S, self2)"
    and 3: "''Annual_yield'' \<in> set (columns ?R) \<and> ''Crop_type'' \<in> set (columns ?R) \<longrightarrow>
          S = map (\<lambda>(n, c). (if n = ''Annual_yield'' then ''Crop_type''
                else if n = ''Crop_type'' then ''Annual_yield'' else n, c)) ?R"
    by blast
  from 3 have "S = [(''Field_ID'', [Num 1]), (''Crop_type'', [Str ''BEAN'']),
                 (''Annual_yield'', [Num 0.5]), (''Elevation'', [Num (- 5)])]"
    by (simp add: columns_def)
  with h 1 2 show ?thesis
    by (intro conjI exI) (assumption | simp)+
qed

text \<open>
  The claim C10 as written has every column named by a later entry left unrenamed. In
  the mapping that exchanges two labels through two entries, the second entry names
  the very columns that the first one renames.
\<close>

theorem rename_columns_later_entry_counterexample:
  "tl (columns_to_rename example_field) = [(''Crop_type'', ''Annual_yield'')]
   \<and> map_option columns (df example_field)
       = Some [''Field_ID'', ''Annual_yield'', ''Crop_type'', ''Elevation'']
   \<and> map_sum id (columns \<circ> fst) (rename_columns example_field)
       = Inr [''Field_ID'', ''Crop_type'', ''Annual_yield'', ''Elevation'']"
  by (simp add: example_field_def rename_columns_def columns_def rename_def Let_def
      fresh_temp_name.simps)

section \<open>The last statement of the field pipeline\<close>

text \<open>
  C9, as amended. Once the merge has given the table \<open>m\<close>, \<open>process\<close> removes the column
  \<open>Unnamed: 0\<close> and keeps every other column as it is when \<open>m\<close> has that column, and
  raises \<open>KeyError\<close> when \<open>m\<close> does not have it.
\<close>

theorem process_drops_unnamed:
  assumes "process_merge io series_abs self = Inr (m, self1)"
  shows "(''Unnamed: 0'' \<in> set (columns m) \<longrightarrow>
            FieldDataProcessor_process io series_abs self
              = Inr (None, self1\<lparr>df := Some (filter (\<lambda>(n, c). n \<noteq> ''Unnamed: 0'') m)\<rparr>))
       \<and> (''Unnamed: 0'' \<notin> set (columns m) \<longrightarrow>
            FieldDataProcessor_process io series_abs self = Inl KeyError)"
  using assms by (simp add: FieldDataProcessor_process_def drop_columns_def)


section \<open>The field pipeline on the example\<close>

lemmas example_simps = example_field_def example_io_def example_io_no_index_def
  example_sql_table_def example_mapping_table_def example_weather_table_def
  FieldDataProcessor_process_def process_merge_def ingest_sql_data_def rename_columns_def
  apply_corrections_def weather_station_mapping_def merge_def drop_columns_def
  getitem_def setitem_def rename_def columns_def example_abs_def elementwise_abs_def Let_def
  fresh_temp_name.simps upt_conv_Cons

lemma example_process_merge:
  "process_merge example_io example_abs example_field =
     Inr ([(''Field_ID'', [Num 1, Num 2]), (''Elevation'', [Num 5, Num 12]),
           (''Crop_type'', [Str ''Bean'', Str ''maize'']),
           (''Annual_yield'', [Num 0.5, Num 0.75]),
           (''Unnamed: 0'', [Num 0, Null]), (''Weather_station'', [Num 4, Null])],
          example_field\<lparr>engine := Some (),
            df := Some [(''Field_ID'', [Num 1, Num 2]), (''Elevation'', [Num 5, Num 12]),
              (''Crop_type'', [Str ''Bean'', Str ''maize'']),
              (''Annual_yield'', [Num 0.5, Num 0.75]),
              (''Unnamed: 0'', [Num 0, Null]), (''Weather_station'', [Num 4, Null])],
            logger := [(INFO, ''Sucessfully loaded data.''),
              (INFO, ''Swapped columns: Annual_yield with Crop_type'')]\<rparr>)"
  by (simp add: example_simps)

theorem process_drops_unnamed_witness:
  "map_sum id (map_option columns \<circ> df \<circ> snd)
     (FieldDataProcessor_process example_io example_abs example_field)
     = Inr (Some [''Field_ID'', ''Elevation'', ''Crop_type'', ''Annual_yield'', ''Weather_station''])"
  using process_drops_unnamed [OF example_process_merge]
  by (simp add: columns_def)

text \<open>
  The claim C9 as written has the last step succeed on every merged table. When the
  mapping table comes without the column \<open>Unnamed: 0\<close> the merge succeeds and the last
  step raises \<open>KeyError\<close>.
\<close>

theorem process_without_unnamed_counterexample:
  "map_sum id (columns \<circ> fst) (process_merge example_io_no_index example_abs example_field)
     = Inr [''Field_ID'', ''Elevation'', ''Crop_type'', ''Annual_yield'', ''Weather_station'']
   \<and> FieldDataProcessor_process example_io_no_index example_abs example_field = Inl KeyError"
  by (simp add: example_simps)


section \<open>The corrections\<close>

lemma map_of_replace_same:
  "n \<in> fst ` set d \<Longrightarrow> map_of (map (\<lambda>(na, old). (na, if na = n then c else old)) d) n = Some c"
  by (induction d) auto

lemma map_of_replace_other:
  "n' \<noteq> n \<Longrightarrow> map_of (map (\<lambda>(na, old). (na, if na = n then c else old)) d) n' = map_of d n'"
  by (induction d) auto

lemma map_of_append_new: "n \<notin> fst ` set d \<Longrightarrow> map_of (d @ [(n, c)]) n = Some c"
  by (induction d) auto

lemma map_of_append_other: "n' \<noteq> n \<Longrightarrow> map_of (d @ [(n, c)]) n' = map_of d n'"
  by (induction d) auto

lemma getitem_setitem_same: "getitem (setitem d n c) n = Inr c"
  by (simp add: getitem_def setitem_def columns_def map_of_replace_same map_of_append_new
      del: map_of_append)

lemma getitem_setitem_other: "n' \<noteq> n \<Longrightarrow> getitem (setitem d n c) n' = getitem d n'"
  by (simp add: getitem_def setitem_def columns_def map_of_replace_other map_of_append_other
      del: map_of_append)

lemma getitem_in_columns: "getitem d n = Inr c \<Longrightarrow> n \<in> set (columns d)"
  by (auto simp: getitem_def columns_def split: option.splits dest!: map_of_SomeD
      intro: rev_image_eqI)

lemma columns_setitem: "n \<in> set (columns d) \<Longrightarrow> columns (setitem d n c) = columns d"
  by (induction d) (auto simp: setitem_def columns_def)

text \<open>
  The absolute value of a 64-bit integer, which wraps at the least value, and the
  absolute value cell by cell that is built on it return a column of absolute values
  unchanged.
\<close>

lemma int64_abs_idem: "int64_abs (int64_abs x) = int64_abs x"
  by (simp add: int64_abs_def)

lemma elementwise_abs_idem:
  assumes "\<And>x. f (f x) = f x" "elementwise_abs f cs = Inr a"
  shows "elementwise_abs f a = Inr a"
proof -
  from assms(2) have no: "\<not> list_ex is_Str cs"
    and a: "a = map (\<lambda>c. case c of Num x \<Rightarrow> Num (f x) | _ \<Rightarrow> c) cs"
    by (auto simp: elementwise_abs_def split: if_splits)
  from no have "\<not> list_ex is_Str a"
    unfolding a by (auto simp: list_ex_iff split: cell.splits)
  moreover have "map (\<lambda>c. case c of Num x \<Rightarrow> Num (f x) | _ \<Rightarrow> c) a = a"
    unfolding a using assms(1) by (auto split: cell.splits)
  ultimately show ?thesis
    by (simp add: elementwise_abs_def)
qed

lemma apply_corrections_once:
  assumes "df self = Some d" "column_name \<noteq> abs_column"
    and "getitem d abs_column = Inr elevation" "series_abs elevation = Inr a"
    and "getitem d column_name = Inr crops"
  shows "\<exists>d1. apply_corrections series_abs self column_name abs_column
        = Inr (d1, self\<lparr>df := Some d1\<rparr>)
    \<and> getitem d1 abs_column = Inr a
    \<and> getitem d1 column_name
        = Inr (map (\<lambda>crop. case crop of
                  Str s \<Rightarrow> (case values_to_rename self s of None \<Rightarrow> crop | Some v \<Rightarrow> v)
                | _ \<Rightarrow> crop) crops)
    \<and> columns d1 = columns d
    \<and> (\<forall>n. n \<noteq> abs_column \<and> n \<noteq> column_name \<longrightarrow> getitem d1 n = getitem d n)"
proof -
  let ?f = "\<lambda>crop. case crop of
      Str s \<Rightarrow> (case values_to_rename self s of None \<Rightarrow> crop | Some v \<Rightarrow> v)
    | _ \<Rightarrow> crop"
  let ?d1 = "setitem (setitem d abs_column a) column_name (map ?f crops)"
  have "apply_corrections series_abs self column_name abs_column
      = Inr (?d1, self\<lparr>df := Some ?d1\<rparr>)"
    using assms by (simp add: apply_corrections_def getitem_setitem_other Let_def)
  moreover have "getitem ?d1 abs_column = Inr a"
    using assms(2) by (simp add: getitem_setitem_other getitem_setitem_same)
  moreover have "getitem ?d1 column_name = Inr (map ?f crops)"
    by (simp add: getitem_setitem_same)
  moreover have "columns ?d1 = columns d"
    using assms(3,5) by (simp add: columns_setitem getitem_in_columns)
  moreover have "\<forall>n. n \<noteq> abs_column \<and> n \<noteq> column_name \<longrightarrow> getitem ?d1 n = getitem d n"
    by (simp add: getitem_setitem_other)
  ultimately show ?thesis
    by (intro exI conjI)
qed

text \<open>
  C6, as amended. On a table that has the category column and the elevation column
  under two different labels, and on whose elevation column \<open>abs\<close> succeeds,
  \<open>apply_corrections\<close> succeeds. Afterwards the elevation column holds the absolute
  values that \<open>abs\<close> returned, the category column holds the mapped value of every
  cell that is a key of \<open>values_to_rename\<close> and the cell itself otherwise, and the labels
  and every other column are as before. As \<open>abs\<close> returns a column of absolute values
  unchanged, a second call leaves the elevation column as the first call left it.
\<close>

theorem apply_corrections_corrects:
  assumes "df self = Some d" "column_name \<noteq> abs_column"
    and "getitem d abs_column = Inr elevation" "series_abs elevation = Inr a"
    and "series_abs a = Inr a"
    and "getitem d column_name = Inr crops"
  shows "\<exists>d1 self1 d2 self2.
      apply_corrections series_abs self column_name abs_column = Inr (d1, self1)
    \<and> df self1 = Some d1
    \<and> getitem d1 abs_column = Inr a
    \<and> getitem d1 column_name
        = Inr (map (\<lambda>crop. case crop of
                  Str s \<Rightarrow> (case values_to_rename self s of None \<Rightarrow> crop | Some v \<Rightarrow> v)
                | _ \<Rightarrow> crop) crops)
    \<and> columns d1 = columns d
    \<and> (\<forall>n. n \<noteq> abs_column \<and> n \<noteq> column_name \<longrightarrow> getitem d1 n = getitem d n)
    \<and> apply_corrections series_abs self1 column_name abs_column = Inr (d2, self2)
    \<and> getitem d2 abs_column = getitem d1 abs_column"
proof -
  let ?f = "\<lambda>crop. case crop of
      Str s \<Rightarrow> (case values_to_rename self s of None \<Rightarrow> crop | Some v \<Rightarrow> v)
    | _ \<Rightarrow> crop"
  from apply_corrections_once [where series_abs = series_abs, OF assms(1,2,3,4,6)]
  obtain d1 where
    first: "apply_corrections series_abs self column_name abs_column
        = Inr (d1, self\<lparr>df := Some d1\<rparr>)"
    and elev1: "getitem d1 abs_column = Inr a"
    and crops1: "getitem d1 column_name = Inr (map ?f crops)"
    and cols: "columns d1 = columns d"
    and others: "\<forall>n. n \<noteq> abs_column \<and> n \<noteq> column_name \<longrightarrow> getitem d1 n = getitem d n"
    by (elim exE conjE)
  have df1: "df (self\<lparr>df := Some d1\<rparr>) = Some d1"
    by simp
  from apply_corrections_once [where series_abs = series_abs, OF df1 assms(2) elev1 assms(5) crops1]
  obtain d2 where
    second: "apply_corrections series_abs (self\<lparr>df := Some d1\<rparr>) column_name abs_column
        = Inr (d2, self\<lparr>df := Some d1\<rparr>\<lparr>df := Some d2\<rparr>)"
    and elev2: "getitem d2 abs_column = Inr a"
    by (elim exE conjE)
  from elev1 elev2 have same: "getitem d2 abs_column = getitem d1 abs_column"
    by simp
  from first df1 elev1 crops1 cols others second same show ?thesis
    by (intro exI conjI)
qed

theorem apply_corrections_corrects_witness:
  "apply_corrections (elementwise_abs int64_abs) example_corrections ''Crop_type'' ''Elevation''
     = Inr ([(''Field_ID'', [Num 1]), (''Crop_type'', [Str ''Bean'']), (''Elevation'', [Num 5])],
            example_corrections\<lparr>df := Some [(''Field_ID'', [Num 1]),
              (''Crop_type'', [Str ''Bean'']), (''Elevation'', [Num 5])]\<rparr>)
   \<and> elementwise_abs int64_abs [Num (- 5)] = Inr [Num 5]
   \<and> elementwise_abs int64_abs [Num 5] = Inr [Num 5]
   \<and> (\<exists>d1 self1 d2 self2.
        apply_corrections (elementwise_abs int64_abs) example_corrections ''Crop_type'' ''Elevation''
          = Inr (d1, self1)
      \<and> getitem d1 ''Elevation'' = Inr [Num 5] \<and> getitem d1 ''Crop_type'' = Inr [Str ''Bean'']
      \<and> apply_corrections (elementwise_abs int64_abs) self1 ''Crop_type'' ''Elevation''
          = Inr (d2, self2)
      \<and> getitem d2 ''Elevation'' = Inr [Num 5])"
proof -
  let ?d = "[(''Field_ID'', [Num 1]), (''Crop_type'', [Str ''BEAN'']),
      (''Elevation'', [Num (- 5 :: int)])]"
  have run: "apply_corrections (elementwise_abs int64_abs) example_corrections
      ''Crop_type'' ''Elevation''
     = Inr ([(''Field_ID'', [Num 1]), (''Crop_type'', [Str ''Bean'']), (''Elevation'', [Num 5])],
            example_corrections\<lparr>df := Some [(''Field_ID'', [Num 1]),
              (''Crop_type'', [Str ''Bean'']), (''Elevation'', [Num 5])]\<rparr>)"
    by (simp add: example_corrections_def apply_corrections_def getitem_def setitem_def
        columns_def elementwise_abs_def int64_abs_def Let_def)
  have h: "df example_corrections = Some ?d" "''Crop_type'' \<noteq> ''Elevation''"
    "getitem ?d ''Elevation'' = Inr [Num (- 5)]"
    "elementwise_abs int64_abs [Num (- 5)] = Inr [Num 5]"
    "elementwise_abs int64_abs [Num 5] = Inr [Num 5]"
    "getitem ?d ''Crop_type'' = Inr [Str ''BEAN'']"
    by (simp_all add: example_corrections_def getitem_def elementwise_abs_def int64_abs_def)
  from apply_corrections_corrects [where series_abs = "elementwise_abs int64_abs", OF h]
  obtain d1 self1 d2 self2 where
    1: "apply_corrections (elementwise_abs int64_abs) example_corrections ''Crop_type'' ''Elevation''
          = Inr (d1, self1)"
    and "df self1 = Some d1"
    and 2: "getitem d1 ''Elevation'' = Inr [Num 5]"
    and 3: "getitem d1 ''Crop_type''
        = Inr (map (\<lambda>crop. case crop of
                  Str s \<Rightarrow> (case values_to_rename example_corrections s of
                             None \<Rightarrow> crop | Some v \<Rightarrow> v)
                | _ \<Rightarrow> crop) [Str ''BEAN''])"
    and "columns d1 = columns ?d"
    and "\<forall>n. n \<noteq> ''Elevation'' \<and> n \<noteq> ''Crop_type'' \<longrightarrow> getitem d1 n = getitem ?d n"
    and 4: "apply_corrections (elementwise_abs int64_abs) self1 ''Crop_type'' ''Elevation''
          = Inr (d2, self2)"
    and 5: "getitem d2 ''Elevation'' = getitem d1 ''Elevation''"
    by (elim exE conjE)
  from 3 have crop: "getitem d1 ''Crop_type'' = Inr [Str ''Bean'']"
    by (simp add: example_corrections_def)
  from 2 5 have elev: "getitem d2 ''Elevation'' = Inr [Num 5]"
    by simp
  from run h(4,5) 1 2 crop 4 elev show ?thesis
    by (intro conjI exI) (assumption | simp)+
qed

text \<open>
  The claim C6 as written speaks of every table that has the two columns. On a table
  whose elevation column holds a string \<open>abs\<close> raises \<open>TypeError\<close>, and no category is
  replaced. When one column is given for both, its cell \<open>-5\<close>, which is no key of the
  mapping, does not stay as it is.
\<close>

theorem apply_corrections_string_counterexample:
  "map_option (\<lambda>d. getitem d ''Crop_type'') (df example_corrections_string)
     = Some (Inr [Str ''BEAN''])
   \<and> map_option (\<lambda>d. getitem d ''Elevation'') (df example_corrections_string)
     = Some (Inr [Str ''high''])
   \<and> apply_corrections (elementwise_abs int64_abs) example_corrections_string
       ''Crop_type'' ''Elevation'' = Inl TypeError
   \<and> map_option (\<lambda>d. getitem d ''Elevation'') (df example_corrections)
     = Some (Inr [Num (- 5)])
   \<and> map_sum id (\<lambda>r. getitem (fst r) ''Elevation'')
       (apply_corrections (elementwise_abs int64_abs) example_corrections
          ''Elevation'' ''Elevation'') = Inr (Inr [Num 5])"
  by (simp add: example_corrections_string_def example_corrections_def apply_corrections_def
      getitem_def setitem_def columns_def elementwise_abs_def int64_abs_def Let_def)

section \<open>The merge is a left join\<close>

lemma row_pairs_sorted:
  assumes "\<And>i. f i \<noteq> [] \<and> (\<forall>p \<in> set (f i). fst p = i)"
  shows "sorted (map fst (concat (map f [0..<n]))) \<and> set (map fst (concat (map f [0..<n]))) = {0..<n}"
proof (induction n)
  case 0
  then show ?case by simp
next
  case (Suc n)
  from assms [of n] obtain p where "p \<in> set (f n)"
    by (cases "f n") auto
  with assms [of n] have "fst ` set (f n) = {n}"
    by force
  moreover have "sorted (map fst (f n))"
    using assms [of n] by (simp add: sorted_wrt_iff_nth_less)
  ultimately show ?case
    using Suc by (auto simp: sorted_append atLeast0_lessThan_Suc)
qed

text \<open>
  The rows of a merged table are given by a list of pairs: a row of \<open>left\<close> with a
  row of \<open>right\<close> that has the same key, or with nothing when no row of \<open>right\<close> has that
  key. Every row of \<open>left\<close> occurs, in order, and each row of the result comes from one.
\<close>

lemma merge_left_join:
  assumes "getitem left on = Inr lk" "getitem right on = Inr rk"
    and "merge left right on = Inr m"
  shows "\<exists>pairs. map snd m = map (\<lambda>(n, c). map (\<lambda>(i, j). c ! i) pairs) left
        @ map (\<lambda>(n, c). map (\<lambda>(i, j). case j of None \<Rightarrow> Null | Some j' \<Rightarrow> c ! j') pairs)
            (filter (\<lambda>(n, c). n \<noteq> on) right)
    \<and> sorted (map fst pairs) \<and> set (map fst pairs) = {0..<length lk}
    \<and> (\<forall>(i, j) \<in> set pairs. case j of
          None \<Rightarrow> (\<forall>j' < length rk. rk ! j' \<noteq> lk ! i)
        | Some j' \<Rightarrow> j' < length rk \<and> rk ! j' = lk ! i)"
proof -
  let ?f = "\<lambda>i. let js = filter (\<lambda>j. rk ! j = lk ! i) [0..<length rk]
                 in if js = [] then [(i, None)] else map (\<lambda>j. (i, Some j)) js"
  let ?pairs = "concat (map ?f [0..<length lk])"
  have f: "?f i \<noteq> [] \<and> (\<forall>p \<in> set (?f i). fst p = i)" for i
    by (auto simp: Let_def)
  have order: "sorted (map fst ?pairs) \<and> set (map fst ?pairs) = {0..<length lk}"
    using f by (rule row_pairs_sorted)
  have keys: "\<forall>(i, j) \<in> set ?pairs. case j of
          None \<Rightarrow> (\<forall>j' < length rk. rk ! j' \<noteq> lk ! i)
        | Some j' \<Rightarrow> j' < length rk \<and> rk ! j' = lk ! i"
    by (auto simp: Let_def filter_empty_conv split: if_splits)
  have cells: "map snd m = map (\<lambda>(n, c). map (\<lambda>(i, j). c ! i) ?pairs) left
        @ map (\<lambda>(n, c). map (\<lambda>(i, j). case j of None \<Rightarrow> Null | Some j' \<Rightarrow> c ! j') ?pairs)
            (filter (\<lambda>(n, c). n \<noteq> on) right)"
    using assms by (auto simp: merge_def Let_def case_prod_unfold comp_def split: if_splits)
  from cells order keys show ?thesis
    by blast
qed

section \<open>What the field pipeline returns\<close>

text \<open>
  C4. The claim has \<open>process\<close> return the merged table, as the docstring of the method
  does. In every successful run the value returned is \<open>None\<close>: the method has no
  \<open>return\<close> statement. The left join of the corrected field table with the mapping
  table on \<open>Field_ID\<close> (see \<open>merge_left_join\<close>), less the column \<open>Unnamed: 0\<close>, is left
  in the attribute \<open>df\<close>.
\<close>

theorem process_returns_None:
  assumes "FieldDataProcessor_process io series_abs self = Inr (r, self')"
  shows "r = None
    \<and> (\<exists>d2 w m. read_from_web_CSV io (weather_map_data self) = Inr w
          \<and> merge d2 w ''Field_ID'' = Inr m
          \<and> ''Unnamed: 0'' \<in> set (columns m)
          \<and> df self' = Some (filter (\<lambda>(n, c). n \<noteq> ''Unnamed: 0'') m))"
proof -
  from assms obtain m self1 where pm: "process_merge io series_abs self = Inr (m, self1)"
    and dr: "''Unnamed: 0'' \<in> set (columns m)"
    and r: "r = None" and s: "self' = self1\<lparr>df := Some (filter (\<lambda>(n, c). n \<noteq> ''Unnamed: 0'') m)\<rparr>"
    by (auto simp: FieldDataProcessor_process_def drop_columns_def
        split: sum.splits prod.splits if_splits)
  from pm obtain d0 self0 d1 self1' d2 self2 w where
    i: "ingest_sql_data io self = Inr (d0, self0)"
    and rn: "rename_columns (self0\<lparr>df := Some d0\<rparr>) = Inr (d1, self1')"
    and ac: "apply_corrections series_abs (self1'\<lparr>df := Some d1\<rparr>) ''Crop_type'' ''Elevation''
      = Inr (d2, self2)"
    and w: "weather_station_mapping io (self2\<lparr>df := Some d2\<rparr>) = Inr w"
    and mg: "merge d2 w ''Field_ID'' = Inr m"
    by (auto simp: process_merge_def split: sum.splits prod.splits)
  have wmd0: "weather_map_data self0 = weather_map_data self"
    using i by (auto simp: ingest_sql_data_def split: sum.splits)
  have wmd1: "weather_map_data self1' = weather_map_data self0"
    using rn by (auto simp: rename_columns_def Let_def split: list.splits option.splits prod.splits)
  have ac2: "self2 = self1'\<lparr>df := Some d2\<rparr>"
    using ac by (auto simp: apply_corrections_def Let_def split: option.splits sum.splits)
  have "read_from_web_CSV io (weather_map_data self) = Inr w"
    using w wmd0 wmd1 ac2 by (simp add: weather_station_mapping_def)
  moreover have "df self' = Some (filter (\<lambda>(n, c). n \<noteq> ''Unnamed: 0'') m)"
    using s by simp
  ultimately show ?thesis
    using r mg dr by blast
qed

theorem process_returns_None_witness:
  "FieldDataProcessor_process example_io example_abs example_field =
     Inr (None, example_field\<lparr>engine := Some (),
            df := Some [(''Field_ID'', [Num 1, Num 2]), (''Elevation'', [Num 5, Num 12]),
              (''Crop_type'', [Str ''Bean'', Str ''maize'']),
              (''Annual_yield'', [Num 0.5, Num 0.75]), (''Weather_station'', [Num 4, Null])],
            logger := [(INFO, ''Sucessfully loaded data.''),
              (INFO, ''Swapped columns: Annual_yield with Crop_type'')]\<rparr>)"
proof -
  have run: "FieldDataProcessor_process example_io example_abs example_field =
     Inr (None, example_field\<lparr>engine := Some (),
            df := Some [(''Field_ID'', [Num 1, Num 2]), (''Elevation'', [Num 5, Num 12]),
              (''Crop_type'', [Str ''Bean'', Str ''maize'']),
              (''Annual_yield'', [Num 0.5, Num 0.75]), (''Weather_station'', [Num 4, Null])],
            logger := [(INFO, ''Sucessfully loaded data.''),
              (INFO, ''Swapped columns: Annual_yield with Crop_type'')]\<rparr>)"
    by (simp add: example_simps)
  from process_returns_None [OF run] run show ?thesis
    by simp
qed

section \<open>What the weather pipeline does\<close>

lemma apply_extract_rows:
  "apply_extract re_search py_float ps cs = Inr (ls, result) \<Longrightarrow>
     list_all2 (\<lambda>c r. snd (extract_measurement_cell re_search py_float ps c) = Inr r) cs result"
proof (induction cs arbitrary: ls result)
  case Nil
  then show ?case by simp
next
  case (Cons c cs)
  then show ?case
    by (auto split: prod.splits sum.splits)
qed

text \<open>
  C5, as amended. \<open>process\<close> loads and extracts, and does not aggregate. After a
  successful run \<open>weather_df\<close> is the loaded table with the two columns \<open>Measurement\<close>
  and \<open>Value\<close> set, row by row, to what \<open>extract_measurement\<close> returns for the message
  of the row; the table has at least one row. The method returns \<open>None\<close>.
\<close>

theorem WeatherDataProcessor_process_extracts:
  assumes "WeatherDataProcessor_process io re_search py_float self = Inr (u, self')"
  shows "\<exists>d messages result.
      read_from_web_CSV io (weather_station_data self) = Inr d
    \<and> getitem d ''Message'' = Inr messages \<and> messages \<noteq> []
    \<and> list_all2 (\<lambda>c r.
          snd (extract_measurement_cell re_search py_float (patterns self) c) = Inr r)
        messages result
    \<and> weather_df self' = Some (setitem (setitem d ''Measurement'' (map (measurement_cell \<circ> fst) result))
          ''Value'' (map (value_cell \<circ> snd) result))"
proof -
  from assms obtain d where d: "read_from_web_CSV io (weather_station_data self) = Inr d"
    by (auto simp: WeatherDataProcessor_process_def WeatherDataProcessor_weather_station_mapping_def
        split: sum.splits)
  let ?self1 = "self\<lparr>weather_df := Some d, logger := logger self @
      [(INFO, ''Successfully loaded weather station data from the web.'')]\<rparr>"
  from assms d obtain r self2 where pm: "process_messages re_search py_float ?self1 = Inr (r, self2)"
    and s: "self' = self2\<lparr>logger := logger self2 @ [(INFO, ''Data processing completed.'')]\<rparr>"
    by (auto simp: WeatherDataProcessor_process_def WeatherDataProcessor_weather_station_mapping_def
        split: sum.splits prod.splits)
  from pm obtain messages ls result where m: "getitem d ''Message'' = Inr messages"
    and ae: "apply_extract re_search py_float (patterns self) messages = Inr (ls, result)"
    and ne: "result \<noteq> []"
    and w: "weather_df self2 = Some (setitem (setitem d ''Measurement''
          (map (measurement_cell \<circ> fst) result)) ''Value'' (map (value_cell \<circ> snd) result))"
    by (auto simp: process_messages_def Let_def split: sum.splits prod.splits if_splits)
  from ae have rows: "list_all2 (\<lambda>c r.
          snd (extract_measurement_cell re_search py_float (patterns self) c) = Inr r)
        messages result"
    by (rule apply_extract_rows)
  with ne have "messages \<noteq> []"
    by auto
  with d m rows w s show ?thesis
    by (intro exI conjI) (assumption | simp)+
qed

lemma example_weather_run:
  "WeatherDataProcessor_process example_io example_re_search example_float example_weather =
     Inr ((), example_weather\<lparr>weather_df := Some
           [(''Weather_station_ID'', [Num 1, Num 1, Num 2]),
            (''Message'', [Str ''Temp: 20C'', Str ''Temp: 30C'', Str ''no data'']),
            (''Measurement'', [Str ''temperature'', Str ''temperature'', Null]),
            (''Value'', [Num 20, Num 30, Null])],
         logger := [(INFO, ''Successfully loaded weather station data from the web.''),
            (DEBUG, ''Measurement extracted: temperature''),
            (DEBUG, ''Measurement extracted: temperature''),
            (DEBUG, ''No measurement match found.''),
            (INFO, ''Messages processed and measurements extracted.''),
            (INFO, ''Data processing completed.'')]\<rparr>)"
  by (simp add: WeatherDataProcessor_process_def WeatherDataProcessor_weather_station_mapping_def
      process_messages_def example_weather_def example_io_def example_weather_table_def
      example_re_search_def example_float_def getitem_def setitem_def columns_def Let_def)

theorem WeatherDataProcessor_process_extracts_witness:
  "\<exists>d messages result.
      read_from_web_CSV example_io (weather_station_data example_weather) = Inr d
    \<and> getitem d ''Message'' = Inr messages \<and> messages \<noteq> []
    \<and> map_sum id (weather_df \<circ> snd)
        (WeatherDataProcessor_process example_io example_re_search example_float example_weather)
      = Inr (Some (setitem (setitem d ''Measurement'' (map (measurement_cell \<circ> fst) result))
          ''Value'' (map (value_cell \<circ> snd) result)))"
  using WeatherDataProcessor_process_extracts [OF example_weather_run] example_weather_run
  by fastforce

section \<open>The weather pipeline on the example\<close>

text \<open>
  The claim C5 as written has the aggregated table among the outputs of \<open>process\<close>.
  On the example \<open>process\<close> returns \<open>None\<close> and leaves in \<open>weather_df\<close> one row per
  message; the table of means is what a further call of \<open>calculate_means\<close> returns.
\<close>

theorem process_does_not_aggregate_counterexample:
  "map_sum id fst
     (WeatherDataProcessor_process example_io example_re_search example_float example_weather)
     = Inr ()
   \<and> map_sum id (weather_df \<circ> snd)
     (WeatherDataProcessor_process example_io example_re_search example_float example_weather)
     = Inr (Some [(''Weather_station_ID'', [Num 1, Num 1, Num 2]),
            (''Message'', [Str ''Temp: 20C'', Str ''Temp: 30C'', Str ''no data'']),
            (''Measurement'', [Str ''temperature'', Str ''temperature'', Null]),
            (''Value'', [Num 20, Num 30, Null])])
   \<and> map_sum id fst (calculate_means example_mean (example_weather\<lparr>weather_df := Some
           [(''Weather_station_ID'', [Num 1, Num 1, Num 2]),
            (''Message'', [Str ''Temp: 20C'', Str ''Temp: 30C'', Str ''no data'']),
            (''Measurement'', [Str ''temperature'', Str ''temperature'', Null]),
            (''Value'', [Num 20, Num 30, Null])]\<rparr>))
     = Inr (Some \<lparr>index = [Num 1], value_columns = [(Str ''temperature'', [Num 25])]\<rparr>)"
  by (simp add: example_weather_run)
    (simp add: calculate_means_def groupby_def getitem_def example_mean_def unstack_def
      group_key_def example_weather_def Let_def)

section \<open>The table of means\<close>













end
